theory Spec2Isabelle
  imports Main "HOL-Library.Word"
begin

section \<open>Python values, exceptions and the operations used by \<open>predict\<close>\<close>

text \<open>
  The development embeds \<open>JinaRerankerV3.predict\<close> of
  \<open>backend/open_webui/retrieval/models/jina_reranker_v3.py\<close>.

  The value returned by the external \<open>model.rerank\<close> is an untyped Python object.
  It is modelled by the JSON-like values below: \<open>None\<close>, \<open>bool\<close>, \<open>int\<close>
  (unbounded), \<open>float\<close> (the 64 bits of the IEEE-754 double), \<open>str\<close>, \<open>list\<close> and
  \<open>dict\<close> with string keys (an association list with distinct keys, read with
  \<open>map_of\<close>). Objects of user-defined classes are outside the model.
\<close>

datatype pyval =
    PyNone
  | PyBool bool
  | PyInt int
  | PyFloat "64 word"
  | PyStr string
  | PyList "pyval list"
  | PyDict "(string \<times> pyval) list"

text \<open>
  Exceptions. \<open>KeyError\<close>, \<open>TypeError\<close>, \<open>IndexError\<close> and \<open>ValueError\<close> are the
  exceptions that the operations below raise, with their standard messages.
  \<open>OtherException name r\<close> is an instance of any class derived from \<open>Exception\<close>, as the
  model may raise; \<open>r\<close> is the exception that its \<open>__str__\<close> raises, if it raises one.
  These are caught by \<open>except Exception\<close>; \<open>KeyboardInterrupt\<close>, \<open>SystemExit\<close>,
  \<open>GeneratorExit\<close> and any other class derived from \<open>BaseException\<close> only are not.
\<close>

datatype pyexc =
    KeyError
  | TypeError
  | IndexError
  | ValueError
  | OtherException string "pyexc option"
  | KeyboardInterrupt
  | SystemExit
  | GeneratorExit
  | OtherBaseException string

fun is_Exception :: "pyexc \<Rightarrow> bool" where
  "is_Exception KeyError = True"
| "is_Exception TypeError = True"
| "is_Exception IndexError = True"
| "is_Exception ValueError = True"
| "is_Exception (OtherException _ _) = True"
| "is_Exception KeyboardInterrupt = False"
| "is_Exception SystemExit = False"
| "is_Exception GeneratorExit = False"
| "is_Exception (OtherBaseException _) = False"

text \<open>
  \<open>f"{e}"\<close> calls \<open>str(e)\<close>: the exception that this raises, if any. Only an exception
  caught by the handler is ever formatted.
\<close>

fun str_raises :: "pyexc \<Rightarrow> pyexc option" where
  "str_raises (OtherException _ r) = r"
| "str_raises _ = None"

text \<open>\<open>obj[key]\<close> for a string key: only a dict accepts it; a missing key is a \<open>KeyError\<close>.\<close>

fun getitem :: "pyval \<Rightarrow> string \<Rightarrow> pyexc + pyval" where
  "getitem (PyDict kvs) k = (case map_of kvs k of None \<Rightarrow> Inl KeyError | Some v \<Rightarrow> Inr v)"
| "getitem _ k = Inl TypeError"

text \<open>
  The elements a \<open>for\<close> loop draws from an object: the items of a list, the keys of a
  dict, the one-character strings of a string; anything else is not iterable.
\<close>

fun py_iter :: "pyval \<Rightarrow> pyexc + pyval list" where
  "py_iter (PyList xs) = Inr xs"
| "py_iter (PyDict kvs) = Inr (map (\<lambda>kv. PyStr (fst kv)) kvs)"
| "py_iter (PyStr s) = Inr (map (\<lambda>c. PyStr [c]) s)"
| "py_iter _ = Inl TypeError"

text \<open>
  Fields of a double: sign (bit 63), biased exponent (bits 62..52), fraction (bits 51..0).
  A finite double with exponent field \<open>e\<close> and fraction \<open>f\<close> has the magnitude
  \<open>f * 2^(1 - 1075)\<close> when \<open>e = 0\<close> and \<open>(2^52 + f) * 2^(e - 1075)\<close> otherwise.
  Python compares a float with an int exactly.
\<close>

definition float_sign :: "64 word \<Rightarrow> bool" where
  "float_sign w = bit w 63"

definition float_exp :: "64 word \<Rightarrow> nat" where
  "float_exp w = unat (take_bit 11 (drop_bit 52 w))"

definition float_frac :: "64 word \<Rightarrow> int" where
  "float_frac w = uint (take_bit 52 w)"

definition float_is_nan :: "64 word \<Rightarrow> bool" where
  "float_is_nan w = (float_exp w = 2047 \<and> float_frac w \<noteq> 0)"

definition float_is_zero :: "64 word \<Rightarrow> bool" where
  "float_is_zero w = (float_exp w = 0 \<and> float_frac w = 0)"

text \<open>\<open>0 <= f\<close> for a float \<open>f\<close>.\<close>

definition zero_le_float :: "64 word \<Rightarrow> bool" where
  "zero_le_float w =
     (if float_is_nan w then False
      else if float_sign w then float_is_zero w
      else True)"

text \<open>\<open>f < n\<close> for a float \<open>f\<close> and a list length \<open>n\<close>.\<close>

definition float_less_nat :: "64 word \<Rightarrow> nat \<Rightarrow> bool" where
  "float_less_nat w n =
     (if float_is_nan w then False
      else if float_sign w then (if float_is_zero w then 0 < n else True)
      else if float_exp w = 2047 then False
      else if float_exp w = 0 then float_frac w * 2 ^ 1 < int n * 2 ^ 1075
      else (2 ^ 52 + float_frac w) * 2 ^ float_exp w < int n * 2 ^ 1075)"

text \<open>
  The chained comparison \<open>0 <= idx < num_docs\<close>, that is \<open>0 <= idx and idx < num_docs\<close>
  with \<open>idx\<close> evaluated once. \<open>bool\<close> is a subclass of \<open>int\<close> (\<open>True\<close> is 1); ordering an
  int against \<open>None\<close>, a string, a list or a dict raises \<open>TypeError\<close>.
\<close>

fun chained_compare :: "pyval \<Rightarrow> nat \<Rightarrow> pyexc + bool" where
  "chained_compare (PyInt i) num_docs = Inr (0 \<le> i \<and> i < int num_docs)"
| "chained_compare (PyBool b) num_docs = Inr ((if b then 1 else 0) < num_docs)"
| "chained_compare (PyFloat f) num_docs = Inr (zero_le_float f \<and> float_less_nat f num_docs)"
| "chained_compare _ num_docs = Inl TypeError"

text \<open>
  \<open>scores[idx] = score\<close> on a list: an int (or bool) index, negative ones counted from
  the end, \<open>IndexError\<close> out of range; any other index type is a \<open>TypeError\<close>.
\<close>

definition list_setitem_int :: "pyval list \<Rightarrow> int \<Rightarrow> pyval \<Rightarrow> pyexc + pyval list" where
  "list_setitem_int xs i v =
     (let n = int (length xs); j = (if i < 0 then i + n else i)
      in if 0 \<le> j \<and> j < n then Inr (xs[nat j := v]) else Inl IndexError)"

fun list_setitem :: "pyval list \<Rightarrow> pyval \<Rightarrow> pyval \<Rightarrow> pyexc + pyval list" where
  "list_setitem xs (PyInt i) v = list_setitem_int xs i v"
| "list_setitem xs (PyBool b) v = list_setitem_int xs (if b then 1 else 0) v"
| "list_setitem xs _ v = Inl TypeError"

text \<open>
  A value interpolated into an f-string is turned into text by \<open>str\<close>, which for a
  list or a dict prints each item with \<open>repr\<close>. Turning an int into decimal text raises
  \<open>ValueError\<close> when it has more digits than the interpreter allows: 4300 by default
  (Python 3.11 and later; the sign is not counted). Nothing else in these values fails
  to print; the interpreter's recursion limit on deeply nested lists is outside the
  model.
\<close>

definition int_max_str_digits :: nat where
  "int_max_str_digits = 4300"

definition int_str_raises :: "int \<Rightarrow> bool" where
  "int_str_raises i = (10 ^ int_max_str_digits \<le> abs i)"

fun format_raises :: "pyval \<Rightarrow> bool" where
  "format_raises (PyInt i) = int_str_raises i"
| "format_raises (PyList xs) = list_ex format_raises xs"
| "format_raises (PyDict kvs) = list_ex format_raises (map snd kvs)"
| "format_raises _ = False"

section \<open>The external model and the observable events\<close>

text \<open>
  \<open>self.model.rerank(query=..., documents=..., return_embeddings=...)\<close> either raises or
  returns an object. It is taken as a function of its three arguments: it returns (a
  call that hangs is outside the model) and it does not mutate the \<open>documents\<close> list it
  is handed.
\<close>

type_synonym ranking_model = "string \<Rightarrow> string list \<Rightarrow> bool \<Rightarrow> pyexc + pyval"

text \<open>
  What a call of \<open>predict\<close> does besides returning: its log records and the call of the
  model, in program order. Log records keep the values that the message interpolates.
  The message of a log record is an f-string, built before the logger is called: where
  it interpolates a value from the model it can raise (\<open>format_raises\<close>,
  \<open>str_raises\<close>), and then no record is logged. Emitting a record does not raise.
  Exhausted memory and signals that arrive during the call are outside the model.
\<close>

datatype event =
    LogWarningEmpty
  | LogDebugReranking nat
  | LogDebugQuery string
  | ModelRerank string "string list" bool
  | LogWarningInvalidIndex pyval
  | LogDebugScores "pyval list"
  | LogException pyexc

section \<open>\<open>JinaRerankerV3.predict\<close>\<close>

text \<open>
  The loop \<open>for result in results['results']\<close> over the items already drawn, with the
  current \<open>scores\<close>. It yields the final \<open>scores\<close> or the exception that left the loop,
  and the warnings logged on the way. The warning of line 94 interpolates \<open>idx\<close>.
\<close>

fun reconcile :: "nat \<Rightarrow> pyval list \<Rightarrow> pyval list \<Rightarrow> (pyexc + pyval list) \<times> event list" where
  "reconcile num_docs scores [] = (Inr scores, [])"
| "reconcile num_docs scores (result # rest) =
     (case getitem result ''index'' of
        Inl e \<Rightarrow> (Inl e, [])
      | Inr idx \<Rightarrow>
     (case getitem result ''relevance_score'' of
        Inl e \<Rightarrow> (Inl e, [])
      | Inr score \<Rightarrow>
     (case chained_compare idx num_docs of
        Inl e \<Rightarrow> (Inl e, [])
      | Inr True \<Rightarrow>
          (case list_setitem scores idx score of
             Inl e \<Rightarrow> (Inl e, [])
           | Inr scores' \<Rightarrow> reconcile num_docs scores' rest)
      | Inr False \<Rightarrow>
          if format_raises idx then (Inl ValueError, [])
          else (case reconcile num_docs scores rest of
                  (r, evs) \<Rightarrow> (r, LogWarningInvalidIndex idx # evs)))))"

text \<open>
  Lines 85 to 97: the score list is allocated with \<open>0.0\<close> everywhere, the items under
  \<open>'results'\<close> are reconciled into it, and the scores are logged and returned. The
  debug message of line 96 interpolates the whole list.
\<close>

definition extract_scores :: "nat \<Rightarrow> pyval \<Rightarrow> (pyexc + pyval list) \<times> event list" where
  "extract_scores num_docs results =
     (let scores = replicate num_docs (PyFloat 0)
      in case getitem results ''results'' of
           Inl e \<Rightarrow> (Inl e, [])
         | Inr rs \<Rightarrow>
        (case py_iter rs of
           Inl e \<Rightarrow> (Inl e, [])
         | Inr items \<Rightarrow>
        (case reconcile num_docs scores items of
           (Inl e, evs) \<Rightarrow> (Inl e, evs)
         | (Inr scores', evs) \<Rightarrow>
             if format_raises (PyList scores') then (Inl ValueError, evs)
             else (Inr scores', evs @ [LogDebugScores scores']))))"

text \<open>
  The body of the \<open>try\<close> block. \<open>sentences[0]\<close> on an empty list would be an
  \<open>IndexError\<close>; \<open>predict\<close> does not get there.
\<close>

definition predict_try :: "ranking_model \<Rightarrow> (string \<times> string) list \<Rightarrow> (pyexc + pyval list) \<times> event list" where
  "predict_try rerank sentences =
     (case sentences of
        [] \<Rightarrow> (Inl IndexError, [])
      | first # _ \<Rightarrow>
          (let query = fst first;
               documents = map snd sentences;
               evs = [LogDebugReranking (length documents), LogDebugQuery (take 100 query),
                      ModelRerank query documents False]
           in case rerank query documents False of
                Inl e \<Rightarrow> (Inl e, evs)
              | Inr results \<Rightarrow>
                  (case extract_scores (length documents) results of
                     (r, evs') \<Rightarrow> (r, evs @ evs'))))"

text \<open>
  \<open>predict\<close>: \<open>Inr None\<close> is the returned \<open>None\<close>, \<open>Inr (Some scores)\<close> the returned list,
  \<open>Inl e\<close> an exception that reaches the caller. The handler builds its message from
  \<open>e\<close> on line 100, inside the \<open>except\<close> block: an exception raised there leaves
  \<open>predict\<close>.
\<close>

definition predict :: "ranking_model \<Rightarrow> (string \<times> string) list \<Rightarrow> (pyexc + pyval list option) \<times> event list" where
  "predict rerank sentences =
     (if sentences = [] then (Inr None, [LogWarningEmpty])
      else case predict_try rerank sentences of
             (Inr scores, evs) \<Rightarrow> (Inr (Some scores), evs)
           | (Inl e, evs) \<Rightarrow>
               if is_Exception e then
                 (case str_raises e of
                    None \<Rightarrow> (Inr None, evs @ [LogException e])
                  | Some e' \<Rightarrow> (Inl e', evs))
               else (Inl e, evs))"

section \<open>Well-formed ranking results\<close>

text \<open>
  The source's comment on line 83 describes the object a working model returns: a dict
  whose \<open>'results'\<close> key holds a list of dicts, each with an \<open>'index'\<close> and a
  \<open>'relevance_score'\<close>. \<open>has_entries results rs\<close> says that \<open>results\<close> is such an
  object and that \<open>rs\<close> lists, in iteration order, the integer index and the score of
  each entry, a float. The entries may carry further keys. The properties of a model
  result set below are stated for such objects.
\<close>

definition is_entry :: "pyval \<Rightarrow> int \<times> 64 word \<Rightarrow> bool" where
  "is_entry r e =
     (getitem r ''index'' = Inr (PyInt (fst e))
      \<and> getitem r ''relevance_score'' = Inr (PyFloat (snd e)))"

definition has_entries :: "pyval \<Rightarrow> (int \<times> 64 word) list \<Rightarrow> bool" where
  "has_entries results rs =
     (case getitem results ''results'' of
        Inr (PyList items) \<Rightarrow> list_all2 is_entry items rs
      | _ \<Rightarrow> False)"

text \<open>An index within \<open>[0, n)\<close>, and the write of one entry into a score vector.\<close>

definition in_range :: "nat \<Rightarrow> int \<Rightarrow> bool" where
  "in_range n i = (0 \<le> i \<and> i < int n)"

definition write_entry :: "nat \<Rightarrow> pyval list \<Rightarrow> int \<times> 64 word \<Rightarrow> pyval list" where
  "write_entry n scores e =
     (if in_range n (fst e) then scores[nat (fst e) := PyFloat (snd e)] else scores)"

text \<open>
  An entry whose index is outside \<open>[0, n)\<close> and can be printed in the warning, and
  a result all of whose out-of-range indices can.
\<close>

definition loggable :: "nat \<Rightarrow> (int \<times> 64 word) list \<Rightarrow> bool" where
  "loggable n rs = list_all (\<lambda>e. in_range n (fst e) \<or> \<not> int_str_raises (fst e)) rs"

fun is_float :: "pyval \<Rightarrow> bool" where
  "is_float (PyFloat _) = True"
| "is_float _ = False"

text \<open>The events that are calls of the model, and those that are invalid-index warnings.\<close>

fun is_model_call :: "event \<Rightarrow> bool" where
  "is_model_call (ModelRerank _ _ _) = True"
| "is_model_call _ = False"

fun is_index_warning :: "event \<Rightarrow> bool" where
  "is_index_warning (LogWarningInvalidIndex _) = True"
| "is_index_warning _ = False"

section \<open>\<open>predict\<close> on a store\<close>

text \<open>
  The lists that \<open>predict\<close> reads, allocates and writes are objects with an identity.
  For the claim about its argument they live in a store: an address is a position in
  the list of objects, and allocation appends. The objects are the caller's list of
  pairs, the \<open>documents\<close> list and the \<open>scores\<close> list; tuples and strings are
  immutable and are kept as values.
\<close>

type_synonym addr = nat

datatype obj =
    PairList "(string \<times> string) list"
  | StrList "string list"
  | ValList "pyval list"

type_synonym heap = "obj list"

definition alloc :: "heap \<Rightarrow> obj \<Rightarrow> addr \<times> heap" where
  "alloc h ob = (length h, h @ [ob])"

text \<open>
  \<open>scores[idx] = score\<close> through the reference \<open>scores\<close>, which is the address of the
  list allocated on line 86 (the last case is not reached from \<open>predict_heap\<close>).
\<close>

definition heap_setitem :: "heap \<Rightarrow> addr \<Rightarrow> pyval \<Rightarrow> pyval \<Rightarrow> pyexc + heap" where
  "heap_setitem h p idx v =
     (case h ! p of
        ValList xs \<Rightarrow>
          (case list_setitem xs idx v of
             Inl e \<Rightarrow> Inl e
           | Inr xs' \<Rightarrow> Inr (h[p := ValList xs']))
      | _ \<Rightarrow> Inl TypeError)"

text \<open>The loop of lines 88 to 94 on the store; the log records are those of \<open>reconcile\<close>.\<close>

fun reconcile_heap :: "nat \<Rightarrow> addr \<Rightarrow> pyval list \<Rightarrow> heap \<Rightarrow> (pyexc + unit) \<times> heap" where
  "reconcile_heap num_docs scores [] h = (Inr (), h)"
| "reconcile_heap num_docs scores (result # rest) h =
     (case getitem result ''index'' of
        Inl e \<Rightarrow> (Inl e, h)
      | Inr idx \<Rightarrow>
     (case getitem result ''relevance_score'' of
        Inl e \<Rightarrow> (Inl e, h)
      | Inr score \<Rightarrow>
     (case chained_compare idx num_docs of
        Inl e \<Rightarrow> (Inl e, h)
      | Inr True \<Rightarrow>
          (case heap_setitem h scores idx score of
             Inl e \<Rightarrow> (Inl e, h)
           | Inr h' \<Rightarrow> reconcile_heap num_docs scores rest h')
      | Inr False \<Rightarrow>
          if format_raises idx then (Inl ValueError, h)
          else reconcile_heap num_docs scores rest h)))"

text \<open>
  The \<open>try\<close> block on the store: the list comprehension allocates \<open>documents\<close>, line
  86 allocates \<open>scores\<close>, the loop writes through \<open>scores\<close>, line 96 reads the list
  back to print it (what \<open>scores\<close> refers to is always the list of line 86). The
  model is handed the contents of \<open>documents\<close> and has no access to the store.
\<close>

definition predict_try_heap :: "ranking_model \<Rightarrow> (string \<times> string) list \<Rightarrow> heap \<Rightarrow> (pyexc + addr) \<times> heap" where
  "predict_try_heap rerank ss h =
     (case ss of
        [] \<Rightarrow> (Inl IndexError, h)
      | first # _ \<Rightarrow>
          (let query = fst first;
               (documents, h1) = alloc h (StrList (map snd ss))
           in case rerank query (map snd ss) False of
                Inl e \<Rightarrow> (Inl e, h1)
              | Inr results \<Rightarrow>
                  (let num_docs = length (map snd ss);
                       (scores, h2) = alloc h1 (ValList (replicate num_docs (PyFloat 0)))
                   in case getitem results ''results'' of
                        Inl e \<Rightarrow> (Inl e, h2)
                      | Inr rs \<Rightarrow>
                     (case py_iter rs of
                        Inl e \<Rightarrow> (Inl e, h2)
                      | Inr items \<Rightarrow>
                     (case reconcile_heap num_docs scores items h2 of
                        (Inl e, h3) \<Rightarrow> (Inl e, h3)
                      | (Inr _, h3) \<Rightarrow>
                          (case h3 ! scores of
                             ValList xs \<Rightarrow>
                               if format_raises (PyList xs) then (Inl ValueError, h3)
                               else (Inr scores, h3)
                           | _ \<Rightarrow> (Inl TypeError, h3)))))))"

text \<open>
  \<open>predict\<close> called with the address \<open>sentences\<close>. The result is the address of the
  returned list, and the store after the call. \<open>None\<close> stands for a call whose argument
  is not the address of a list of pairs: such a call is outside the signature.
\<close>

definition predict_heap :: "ranking_model \<Rightarrow> addr \<Rightarrow> heap \<Rightarrow> ((pyexc + addr option) \<times> heap) option" where
  "predict_heap rerank sentences h =
     (if sentences < length h then
        (case h ! sentences of
           PairList ss \<Rightarrow>
             Some (if ss = [] then (Inr None, h)
                   else case predict_try_heap rerank ss h of
                          (Inr scores, h') \<Rightarrow> (Inr (Some scores), h')
                        | (Inl e, h') \<Rightarrow>
                            if is_Exception e then
                              (case str_raises e of
                                 None \<Rightarrow> (Inr None, h')
                               | Some e' \<Rightarrow> (Inl e', h'))
                            else (Inl e, h'))
         | _ \<Rightarrow> None)
      else None)"

text \<open>The heap after the two allocations of the \<open>try\<close> block.\<close>

definition allocated :: "heap \<Rightarrow> (string \<times> string) list \<Rightarrow> heap" where
  "allocated h ss = h @ [StrList (map snd ss), ValList (replicate (length ss) (PyFloat 0))]"

section \<open>Example inputs\<close>

text \<open>A model that does the same at every call, and the objects it may return.\<close>

definition fixed_model :: "pyexc + pyval \<Rightarrow> ranking_model" where
  "fixed_model outcome = (\<lambda>query documents return_embeddings. outcome)"

definition result_entry :: "int \<Rightarrow> 64 word \<Rightarrow> pyval" where
  "result_entry i f = PyDict [(''index'', PyInt i), (''relevance_score'', PyFloat f)]"

definition results_object :: "pyval list \<Rightarrow> pyval" where
  "results_object items = PyDict [(''results'', PyList items)]"

text \<open>A model that answers one call only, and raises \<open>SystemExit\<close> at any other.\<close>

definition only_call :: "string \<Rightarrow> string list \<Rightarrow> bool \<Rightarrow> pyexc + pyval \<Rightarrow> ranking_model" where
  "only_call q0 d0 b0 outcome =
     (\<lambda>query documents return_embeddings.
        if query = q0 \<and> documents = d0 \<and> return_embeddings = b0 then outcome
        else Inl SystemExit)"

text \<open>An index of 4301 decimal digits.\<close>

definition huge_index :: int where
  "huge_index = 10 ^ int_max_str_digits"

definition two_docs :: "(string \<times> string) list" where
  "two_docs = [(''what is rust?'', ''doc A''), (''what is rust?'', ''doc B'')]"

definition three_docs :: "(string \<times> string) list" where
  "three_docs = [(''q'', ''A''), (''q'', ''B''), (''q'', ''C'')]"

section \<open>Properties of the operations\<close>

lemma chained_compare_int: "chained_compare (PyInt i) n = Inr (in_range n i)"
  by (simp add: in_range_def)

lemma list_setitem_in_range:
  "in_range (length xs) i \<Longrightarrow> list_setitem xs (PyInt i) v = Inr (xs[nat i := v])"
  by (simp add: list_setitem_int_def in_range_def)

lemma list_setitem_length:
  "list_setitem xs idx v = Inr ys \<Longrightarrow> length ys = length xs"
  by (cases idx) (auto simp: list_setitem_int_def Let_def split: if_splits)

text \<open>
  The operations of the reconciliation raise only instances of \<open>Exception\<close> that can be
  turned into text.
\<close>

lemma getitem_exc: "getitem v k = Inl e \<Longrightarrow> is_Exception e \<and> str_raises e = None"
  by (cases v) (auto split: option.splits)

lemma py_iter_exc: "py_iter v = Inl e \<Longrightarrow> is_Exception e \<and> str_raises e = None"
  by (cases v) auto

lemma chained_compare_exc:
  "chained_compare v n = Inl e \<Longrightarrow> is_Exception e \<and> str_raises e = None"
  by (cases v) auto

lemma list_setitem_exc:
  "list_setitem xs idx v = Inl e \<Longrightarrow> is_Exception e \<and> str_raises e = None"
  by (cases idx) (auto simp: list_setitem_int_def Let_def split: if_splits)

text \<open>Indices of one digit can be printed; \<open>huge_index\<close> cannot, and is in no range below 10.\<close>

lemma ten_le_limit: "(10::int) \<le> 10 ^ int_max_str_digits"
proof -
  have "(10::int) ^ 1 \<le> 10 ^ int_max_str_digits"
    by (rule power_increasing) (simp_all add: int_max_str_digits_def)
  then show ?thesis by simp
qed

lemma small_int_prints: "abs i < 10 \<Longrightarrow> \<not> int_str_raises i"
  using ten_le_limit by (simp add: int_str_raises_def)

lemma huge_index_raises: "int_str_raises huge_index"
  by (simp add: int_str_raises_def huge_index_def)

lemma huge_index_out_of_range: "n < 10 \<Longrightarrow> \<not> in_range n huge_index"
proof -
  assume "n < 10"
  then have "int n < 10" by simp
  with ten_le_limit have "int n < huge_index"
    unfolding huge_index_def by linarith
  then show ?thesis
    by (simp add: in_range_def)
qed


text \<open>A list of floats can always be printed.\<close>

lemma floats_print: "list_all is_float xs \<Longrightarrow> \<not> format_raises (PyList xs)"
proof (induction xs)
  case Nil
  then show ?case by simp
next
  case (Cons x xs)
  then show ?case by (cases x) simp_all
qed

section \<open>Properties of the loop\<close>

lemma reconcile_exc:
  "reconcile n scores items = (Inl e, evs) \<Longrightarrow> is_Exception e \<and> str_raises e = None"
proof (induction items arbitrary: scores evs)
  case Nil
  then show ?case by simp
next
  case (Cons r items)
  then show ?case
    by (auto split: sum.splits bool.splits prod.splits if_splits
             dest: getitem_exc chained_compare_exc list_setitem_exc)
qed

lemma reconcile_length:
  "reconcile n scores items = (Inr scores', evs) \<Longrightarrow> length scores' = length scores"
proof (induction items arbitrary: scores evs)
  case Nil
  then show ?case by simp
next
  case (Cons r items)
  then show ?case
    by (auto split: sum.splits bool.splits prod.splits if_splits dest: list_setitem_length)
qed

lemma reconcile_no_model_call:
  "reconcile n scores items = (r, evs) \<Longrightarrow> filter is_model_call evs = []"
proof (induction items arbitrary: scores r evs)
  case Nil
  then show ?case by simp
next
  case (Cons x items)
  then show ?case
    by (fastforce split: sum.splits bool.splits prod.splits if_splits)
qed

text \<open>
  One step of the loop on a well-formed entry: a write when the index is in range, a
  warning when it is not and can be printed, \<open>ValueError\<close> when it cannot.
\<close>

lemma reconcile_entry:
  assumes "is_entry r e" and "length scores = n"
  shows "reconcile n scores (r # items) =
           (if in_range n (fst e) then reconcile n (write_entry n scores e) items
            else if int_str_raises (fst e) then (Inl ValueError, [])
            else (case reconcile n scores items of
                    (res, evs) \<Rightarrow> (res, LogWarningInvalidIndex (PyInt (fst e)) # evs)))"
proof -
  have idx: "getitem r ''index'' = Inr (PyInt (fst e))"
    and score: "getitem r ''relevance_score'' = Inr (PyFloat (snd e))"
    using assms(1) by (simp_all add: is_entry_def)
  show ?thesis
  proof (cases "in_range n (fst e)")
    case True
    then have "list_setitem scores (PyInt (fst e)) (PyFloat (snd e)) = Inr (write_entry n scores e)"
      using assms(2) by (simp only: list_setitem_in_range write_entry_def if_True)
    with True show ?thesis
      by (simp add: idx score chained_compare_int
               del: chained_compare.simps list_setitem.simps)
  next
    case False
    then show ?thesis
      by (simp add: idx score chained_compare_int del: chained_compare.simps)
  qed
qed

lemma length_write_entry: "length (write_entry n scores e) = length scores"
  by (simp add: write_entry_def)

text \<open>
  On well-formed entries whose out-of-range indices can be printed the loop never
  raises: it folds \<open>write_entry\<close> over them and logs one warning for each index out of
  range.
\<close>

lemma reconcile_entries:
  "list_all2 is_entry items rs \<Longrightarrow> length scores = n \<Longrightarrow> loggable n rs \<Longrightarrow>
   reconcile n scores items =
     (Inr (foldl (write_entry n) scores rs),
      map (\<lambda>e. LogWarningInvalidIndex (PyInt (fst e)))
        (filter (\<lambda>e. \<not> in_range n (fst e)) rs))"
proof (induction items rs arbitrary: scores rule: list_all2_induct)
  case Nil
  then show ?case by simp
next
  case (Cons r items e rs)
  from Cons.prems(2) have ok: "in_range n (fst e) \<or> \<not> int_str_raises (fst e)"
    and rest: "loggable n rs"
    by (simp_all add: loggable_def)
  have len: "length (write_entry n scores e) = n"
    using Cons.prems(1) by (simp add: length_write_entry)
  show ?case
  proof (cases "in_range n (fst e)")
    case True
    with Cons.IH [OF len rest] show ?thesis
      by (subst reconcile_entry [OF Cons.hyps(1) Cons.prems(1)]) simp
  next
    case False
    then have "write_entry n scores e = scores"
      by (simp add: write_entry_def)
    with False ok Cons.IH [OF Cons.prems(1) rest] show ?thesis
      by (subst reconcile_entry [OF Cons.hyps(1) Cons.prems(1)]) simp
  qed
qed

text \<open>With an out-of-range index that cannot be printed the loop raises \<open>ValueError\<close>.\<close>

lemma reconcile_entries_unloggable:
  "list_all2 is_entry items rs \<Longrightarrow> length scores = n \<Longrightarrow> \<not> loggable n rs \<Longrightarrow>
   fst (reconcile n scores items) = Inl ValueError"
proof (induction items rs arbitrary: scores rule: list_all2_induct)
  case Nil
  then show ?case by (simp add: loggable_def)
next
  case (Cons r items e rs)
  have len: "length (write_entry n scores e) = n"
    using Cons.prems(1) by (simp add: length_write_entry)
  show ?case
  proof (cases "in_range n (fst e)")
    case True
    with Cons.prems(2) have "\<not> loggable n rs"
      by (simp add: loggable_def)
    with True Cons.IH [OF len] show ?thesis
      by (subst reconcile_entry [OF Cons.hyps(1) Cons.prems(1)]) simp
  next
    case False
    show ?thesis
    proof (cases "int_str_raises (fst e)")
      case True
      with False show ?thesis
        by (subst reconcile_entry [OF Cons.hyps(1) Cons.prems(1)]) simp
    next
      case printable: False
      with False Cons.prems(2) have "\<not> loggable n rs"
        by (simp add: loggable_def)
      with False printable Cons.IH [OF Cons.prems(1)] show ?thesis
        by (subst reconcile_entry [OF Cons.hyps(1) Cons.prems(1)]) (auto split: prod.splits)
    qed
  qed
qed

lemma length_foldl_write: "length (foldl (write_entry n) scores rs) = length scores"
  by (induction rs arbitrary: scores) (simp_all add: write_entry_def)

lemma nth_write_entry:
  "k < length sc \<Longrightarrow> n = length sc \<Longrightarrow>
   write_entry n sc e ! k = (if fst e = int k then PyFloat (snd e) else sc ! k)"
  by (auto simp: write_entry_def in_range_def nth_list_update)

text \<open>Position \<open>k\<close> after the fold: the score of the last entry with index \<open>k\<close>, if any.\<close>

lemma nth_foldl_write:
  "k < n \<Longrightarrow> n = length scores \<Longrightarrow>
   foldl (write_entry n) scores rs ! k =
     (case map_of (rev rs) (int k) of None \<Rightarrow> scores ! k | Some f \<Rightarrow> PyFloat f)"
proof (induction rs rule: rev_induct)
  case Nil
  then show ?case by simp
next
  case (snoc e rs)
  then show ?case
    by (cases e) (simp add: nth_write_entry length_foldl_write)
qed

lemma floats_write_entry: "list_all is_float sc \<Longrightarrow> list_all is_float (write_entry n sc e)"
  by (auto simp: write_entry_def list_all_iff dest!: set_update_subset_insert [THEN subsetD])

lemma floats_foldl_write:
  "list_all is_float sc \<Longrightarrow> list_all is_float (foldl (write_entry n) sc rs)"
  by (induction rs arbitrary: sc) (simp_all add: floats_write_entry)



section \<open>Properties of \<open>predict\<close>\<close>

lemma extract_scores_exc:
  "extract_scores n results = (Inl e, evs) \<Longrightarrow> is_Exception e \<and> str_raises e = None"
  by (auto simp: extract_scores_def Let_def split: sum.splits prod.splits if_splits
           dest: getitem_exc py_iter_exc reconcile_exc)

lemma extract_scores_length:
  "extract_scores n results = (Inr scores, evs) \<Longrightarrow> length scores = n"
  by (auto simp: extract_scores_def Let_def split: sum.splits prod.splits if_splits
           dest: reconcile_length)

lemma extract_scores_no_model_call:
  "extract_scores n results = (r, evs) \<Longrightarrow> filter is_model_call evs = []"
  by (auto simp: extract_scores_def Let_def split: sum.splits prod.splits if_splits
           dest: reconcile_no_model_call)

lemma has_entries_items:
  assumes "has_entries results rs"
  obtains items where "getitem results ''results'' = Inr (PyList items)"
    and "list_all2 is_entry items rs"
  using assms by (auto simp: has_entries_def split: sum.splits pyval.splits)

lemma extract_scores_entries:
  assumes "has_entries results rs" and "loggable n rs"
  shows "extract_scores n results =
    (Inr (foldl (write_entry n) (replicate n (PyFloat 0)) rs),
     map (\<lambda>e. LogWarningInvalidIndex (PyInt (fst e))) (filter (\<lambda>e. \<not> in_range n (fst e)) rs)
       @ [LogDebugScores (foldl (write_entry n) (replicate n (PyFloat 0)) rs)])"
proof -
  from assms(1) obtain items where g: "getitem results ''results'' = Inr (PyList items)"
    and l: "list_all2 is_entry items rs"
    by (rule has_entries_items)
  have len: "length (replicate n (PyFloat 0)) = n" by simp
  have "list_all is_float (replicate n (PyFloat 0))"
    by (simp add: list_all_iff)
  then have "\<not> format_raises (PyList (foldl (write_entry n) (replicate n (PyFloat 0)) rs))"
    by (intro floats_print floats_foldl_write)
  with reconcile_entries [OF l len assms(2)] show ?thesis
    by (simp add: extract_scores_def g del: format_raises.simps)
qed

lemma extract_scores_entries_unloggable:
  assumes "has_entries results rs" and "\<not> loggable n rs"
  shows "fst (extract_scores n results) = Inl ValueError"
proof -
  from assms(1) obtain items where g: "getitem results ''results'' = Inr (PyList items)"
    and l: "list_all2 is_entry items rs"
    by (rule has_entries_items)
  have len: "length (replicate n (PyFloat 0)) = n" by simp
  from reconcile_entries_unloggable [OF l len assms(2)] show ?thesis
    by (auto simp: extract_scores_def g split: prod.splits)
qed

lemma predict_nonempty:
  "sentences \<noteq> [] \<Longrightarrow>
   predict rerank sentences =
     (let evs = [LogDebugReranking (length sentences), LogDebugQuery (take 100 (fst (hd sentences))),
                 ModelRerank (fst (hd sentences)) (map snd sentences) False]
      in case rerank (fst (hd sentences)) (map snd sentences) False of
           Inl e \<Rightarrow>
             if is_Exception e then
               (case str_raises e of
                  None \<Rightarrow> (Inr None, evs @ [LogException e])
                | Some e' \<Rightarrow> (Inl e', evs))
             else (Inl e, evs)
         | Inr results \<Rightarrow>
             (case extract_scores (length sentences) results of
                (Inl e, evs') \<Rightarrow> (Inr None, evs @ evs' @ [LogException e])
              | (Inr scores, evs') \<Rightarrow> (Inr (Some scores), evs @ evs')))"
  by (cases sentences)
     (auto simp: predict_def predict_try_def Let_def split: sum.splits prod.splits
           dest: extract_scores_exc)

lemma predict_entries:
  assumes "sentences \<noteq> []"
    and "rerank (fst (hd sentences)) (map snd sentences) False = Inr results"
    and "has_entries results rs"
    and "loggable (length sentences) rs"
  shows "fst (predict rerank sentences) =
           Inr (Some (foldl (write_entry (length sentences))
                        (replicate (length sentences) (PyFloat 0)) rs))"
    and "filter is_index_warning (snd (predict rerank sentences)) =
           map (\<lambda>e. LogWarningInvalidIndex (PyInt (fst e)))
             (filter (\<lambda>e. \<not> in_range (length sentences) (fst e)) rs)"
  using assms(2)
  by (simp_all add: predict_nonempty [OF assms(1)] extract_scores_entries [OF assms(3,4)]
        filter_map comp_def)

lemma predict_entries_unloggable:
  assumes "sentences \<noteq> []"
    and "rerank (fst (hd sentences)) (map snd sentences) False = Inr results"
    and "has_entries results rs"
    and "\<not> loggable (length sentences) rs"
  shows "fst (predict rerank sentences) = Inr None"
proof -
  obtain r evs where ex: "extract_scores (length sentences) results = (r, evs)"
    by (cases "extract_scores (length sentences) results")
  with extract_scores_entries_unloggable [OF assms(3,4)] have "r = Inl ValueError"
    by simp
  with ex assms(2) show ?thesis
    by (simp add: predict_nonempty [OF assms(1)] Let_def)
qed

text \<open>
  So, on a well-formed result, a list is returned exactly when every out-of-range index
  can be printed, and the list is then the fold of the writes.
\<close>

lemma predict_entries_returned:
  assumes "sentences \<noteq> []"
    and "rerank (fst (hd sentences)) (map snd sentences) False = Inr results"
    and "has_entries results rs"
    and "fst (predict rerank sentences) = Inr (Some scores)"
  shows "loggable (length sentences) rs"
    and "scores = foldl (write_entry (length sentences))
                    (replicate (length sentences) (PyFloat 0)) rs"
proof -
  show l: "loggable (length sentences) rs"
  proof (rule ccontr)
    assume "\<not> loggable (length sentences) rs"
    with assms(1-3) have "fst (predict rerank sentences) = Inr None"
      by (rule predict_entries_unloggable)
    with assms(4) show False by simp
  qed
  from assms(1-3) l have "fst (predict rerank sentences) =
           Inr (Some (foldl (write_entry (length sentences))
                        (replicate (length sentences) (PyFloat 0)) rs))"
    by (rule predict_entries(1))
  with assms(4) show "scores = foldl (write_entry (length sentences))
                    (replicate (length sentences) (PyFloat 0)) rs"
    by simp
qed

section \<open>Properties of \<open>predict\<close> on a store\<close>

text \<open>The loop on the heap writes only to the object at \<open>scores\<close>, as \<open>reconcile\<close> does to its list.\<close>

lemma heap_setitem_ValList:
  "h ! p = ValList sc \<Longrightarrow>
   heap_setitem h p idx v =
     (case list_setitem sc idx v of Inl e \<Rightarrow> Inl e | Inr sc' \<Rightarrow> Inr (h[p := ValList sc']))"
  by (simp add: heap_setitem_def)

lemma reconcile_heap_returns:
  "reconcile n sc items = (Inr sc', evs) \<Longrightarrow> p < length h \<Longrightarrow> h ! p = ValList sc \<Longrightarrow>
   reconcile_heap n p items h = (Inr (), h[p := ValList sc'])"
proof (induction items arbitrary: h sc evs)
  case Nil
  then have "h[p := ValList sc'] = h"
    by (metis list_update_id Pair_inject reconcile.simps(1) sum.inject(2))
  with Nil show ?case by simp
next
  case (Cons r items)
  from Cons.prems show ?case
    by (auto simp: heap_setitem_ValList split: sum.splits bool.splits prod.splits if_splits
             intro!: Cons.IH [where h = "h[p := ValList sc1]" for sc1, simplified]
                     Cons.IH [where h = h])
qed

lemma reconcile_heap_raises:
  "reconcile n sc items = (Inl e, evs) \<Longrightarrow> p < length h \<Longrightarrow> h ! p = ValList sc \<Longrightarrow>
   fst (reconcile_heap n p items h) = Inl e"
proof (induction items arbitrary: h sc evs)
  case Nil
  then show ?case by simp
next
  case (Cons r items)
  from Cons.prems show ?case
    by (auto simp: heap_setitem_ValList split: sum.splits bool.splits prod.splits if_splits
             intro!: Cons.IH [where h = "h[p := ValList sc1]" for sc1, simplified]
                     Cons.IH [where h = h])
qed

lemma heap_setitem_frame:
  "heap_setitem h p idx v = Inr h' \<Longrightarrow>
   length h' = length h \<and> (\<forall>b. b \<noteq> p \<longrightarrow> h' ! b = h ! b)"
  by (auto simp: heap_setitem_def split: obj.splits sum.splits)

lemma reconcile_heap_frame:
  "reconcile_heap n p items h = (r, h') \<Longrightarrow>
   length h' = length h \<and> (\<forall>b. b \<noteq> p \<longrightarrow> h' ! b = h ! b)"
proof (induction items arbitrary: h)
  case Nil
  then show ?case by simp
next
  case (Cons x items)
  show ?case
  proof (cases "\<exists>h1. heap_setitem h p (projr (getitem x ''index'')) (projr (getitem x ''relevance_score'')) = Inr h1
                   \<and> reconcile_heap n p items h1 = (r, h')")
    case True
    then obtain h1 where s: "heap_setitem h p (projr (getitem x ''index'')) (projr (getitem x ''relevance_score'')) = Inr h1"
      and rec: "reconcile_heap n p items h1 = (r, h')"
      by blast
    from heap_setitem_frame [OF s] Cons.IH [OF rec] show ?thesis
      by simp
  next
    case False
    with Cons.prems have "h' = h \<or> reconcile_heap n p items h = (r, h')"
      by (auto split: sum.splits bool.splits if_splits)
    with Cons.IH [of h] show ?thesis
      by auto
  qed
qed

lemma predict_try_heap_unfold:
  "ss \<noteq> [] \<Longrightarrow>
   predict_try_heap rerank ss h =
     (case rerank (fst (hd ss)) (map snd ss) False of
        Inl e \<Rightarrow> (Inl e, h @ [StrList (map snd ss)])
      | Inr results \<Rightarrow>
          (case getitem results ''results'' of
             Inl e \<Rightarrow> (Inl e, allocated h ss)
           | Inr rs \<Rightarrow>
          (case py_iter rs of
             Inl e \<Rightarrow> (Inl e, allocated h ss)
           | Inr items \<Rightarrow>
          (case reconcile_heap (length ss) (Suc (length h)) items (allocated h ss) of
             (Inl e, h3) \<Rightarrow> (Inl e, h3)
           | (Inr u, h3) \<Rightarrow>
               (case h3 ! Suc (length h) of
                  ValList xs \<Rightarrow>
                    if format_raises (PyList xs) then (Inl ValueError, h3)
                    else (Inr (Suc (length h)), h3)
                | _ \<Rightarrow> (Inl TypeError, h3))))))"
  by (cases ss) (simp_all add: predict_try_heap_def alloc_def allocated_def Let_def split: sum.splits)

lemma predict_try_unfold:
  "ss \<noteq> [] \<Longrightarrow>
   fst (predict_try rerank ss) =
     (case rerank (fst (hd ss)) (map snd ss) False of
        Inl e \<Rightarrow> Inl e
      | Inr results \<Rightarrow>
          (case getitem results ''results'' of
             Inl e \<Rightarrow> Inl e
           | Inr rs \<Rightarrow>
          (case py_iter rs of
             Inl e \<Rightarrow> Inl e
           | Inr items \<Rightarrow>
               (case fst (reconcile (length ss) (replicate (length ss) (PyFloat 0)) items) of
                  Inl e \<Rightarrow> Inl e
                | Inr scores \<Rightarrow>
                    if format_raises (PyList scores) then Inl ValueError else Inr scores))))"
  by (cases ss)
     (auto simp: predict_try_def extract_scores_def Let_def split: sum.splits prod.splits)

lemma allocated_nth:
  "b < length h \<Longrightarrow> allocated h ss ! b = h ! b"
  "allocated h ss ! Suc (length h) = ValList (replicate (length ss) (PyFloat 0))"
  "length (allocated h ss) = Suc (Suc (length h))"
  by (simp_all add: allocated_def nth_append)

lemma predict_try_heap_frame:
  assumes "predict_try_heap rerank ss h = (r, h')"
  shows "length h \<le> length h' \<and> (\<forall>b < length h. h' ! b = h ! b)
         \<and> (\<forall>p. r = Inr p \<longrightarrow> length h \<le> p \<and> p < length h')"
proof (cases "ss = []")
  case True
  with assms show ?thesis
    by (auto simp: predict_try_heap_def)
next
  case False
  have frame: "length h \<le> length h3 \<and> (\<forall>b < length h. h3 ! b = h ! b) \<and> Suc (length h) < length h3"
    if "reconcile_heap (length ss) (Suc (length h)) items (allocated h ss) = (u, h3)" for items u h3
    using reconcile_heap_frame [OF that] by (auto simp: allocated_nth)
  from assms show ?thesis
    unfolding predict_try_heap_unfold [OF False]
    by (auto simp: nth_append allocated_nth split: sum.splits prod.splits obj.splits if_splits
             dest!: frame)
qed

lemma predict_try_heap_refines:
  assumes "predict_try_heap rerank ss h = (r, h')"
  shows "case r of
           Inl e \<Rightarrow> fst (predict_try rerank ss) = Inl e
         | Inr p \<Rightarrow> \<exists>scores. h' ! p = ValList scores \<and> fst (predict_try rerank ss) = Inr scores"
proof (cases "ss = []")
  case True
  with assms show ?thesis
    by (auto simp: predict_try_heap_def predict_try_def)
next
  case False
  let ?n = "length ss"
  let ?sc = "replicate ?n (PyFloat 0)"
  let ?h2 = "allocated h ss"
  have p: "Suc (length h) < length ?h2" and at: "?h2 ! Suc (length h) = ValList ?sc"
    by (simp_all add: allocated_nth)
  have loop: "case u of
                Inl e \<Rightarrow> fst (reconcile ?n ?sc items) = Inl e
              | Inr v \<Rightarrow> \<exists>scores. h3 ! Suc (length h) = ValList scores
                          \<and> fst (reconcile ?n ?sc items) = Inr scores"
    if run: "reconcile_heap ?n (Suc (length h)) items ?h2 = (u, h3)" for items u h3
  proof (cases "reconcile ?n ?sc items")
    case (Pair res evs)
    show ?thesis
    proof (cases res)
      case (Inl e)
      with Pair have "fst (reconcile_heap ?n (Suc (length h)) items ?h2) = Inl e"
        using reconcile_heap_raises [OF _ p at] by blast
      with run Pair Inl show ?thesis
        by simp
    next
      case (Inr sc')
      with Pair have "reconcile_heap ?n (Suc (length h)) items ?h2
                        = (Inr (), ?h2[Suc (length h) := ValList sc'])"
        using reconcile_heap_returns [OF _ p at] by blast
      with run Pair Inr p show ?thesis
        by auto
    qed
  qed
  from assms show ?thesis
    unfolding predict_try_heap_unfold [OF False] predict_try_unfold [OF False]
    by (auto split: sum.splits prod.splits obj.splits if_splits dest!: loop
             simp del: format_raises.simps)
qed

section \<open>Examples\<close>

text \<open>
  The specification's second example: three documents, and a result whose only entry has
  index 5. The call returns three times \<open>0.0\<close> and logs one warning.
\<close>

lemma example_only_out_of_range:
  "predict (fixed_model (Inr (results_object [result_entry 5 0x3FEFAE147AE147AE]))) three_docs
     = (Inr (Some [PyFloat 0, PyFloat 0, PyFloat 0]),
        [LogDebugReranking 3, LogDebugQuery ''q'', ModelRerank ''q'' [''A'', ''B'', ''C''] False,
         LogWarningInvalidIndex (PyInt 5), LogDebugScores [PyFloat 0, PyFloat 0, PyFloat 0]])"
  by (simp add: predict_def predict_try_def extract_scores_def fixed_model_def
        results_object_def result_entry_def three_docs_def Let_def numeral_3_eq_3
        small_int_prints)

text \<open>
  An index that is a float is not an entry in the sense of \<open>is_entry\<close>. The float
  \<open>5.0\<close> fails the range check and is discarded like the int 5; the float \<open>1.0\<close>
  passes it, \<open>scores[1.0] = score\<close> raises \<open>TypeError\<close>, and the call returns \<open>None\<close>.
\<close>

lemma chained_compare_float_one: "chained_compare (PyFloat 0x3FF0000000000000) 3 = Inr True"
  by (simp add: zero_le_float_def float_less_nat_def float_is_nan_def float_sign_def
        float_exp_def float_frac_def float_is_zero_def)

lemma chained_compare_float_five: "chained_compare (PyFloat 0x4014000000000000) 3 = Inr False"
  by (simp add: zero_le_float_def float_less_nat_def float_is_nan_def float_sign_def
        float_exp_def float_frac_def float_is_zero_def)

lemma example_float_index_in_range:
  "predict (fixed_model (Inr (results_object
      [PyDict [(''index'', PyFloat 0x3FF0000000000000),
               (''relevance_score'', PyFloat 0x3FE0000000000000)]]))) three_docs
     = (Inr None,
        [LogDebugReranking 3, LogDebugQuery ''q'', ModelRerank ''q'' [''A'', ''B'', ''C''] False,
         LogException TypeError])"
  using chained_compare_float_one
  by (simp add: predict_def predict_try_def extract_scores_def fixed_model_def
        results_object_def three_docs_def Let_def numeral_3_eq_3
        del: chained_compare.simps)

lemma example_float_index_out_of_range:
  "fst (predict (fixed_model (Inr (results_object
      [PyDict [(''index'', PyFloat 0x4014000000000000),
               (''relevance_score'', PyFloat 0x3FE0000000000000)]]))) three_docs)
     = Inr (Some [PyFloat 0, PyFloat 0, PyFloat 0])"
  using chained_compare_float_five
  by (simp add: predict_def predict_try_def extract_scores_def fixed_model_def
        results_object_def three_docs_def Let_def numeral_3_eq_3
        del: chained_compare.simps)

text \<open>
  An out-of-range index of 4301 digits cannot be printed in the warning: the f-string of
  line 94 raises \<open>ValueError\<close> inside the \<open>try\<close> block and the call returns \<open>None\<close>.
\<close>

lemma example_unprintable_index:
  "predict (fixed_model (Inr (results_object [result_entry huge_index 0x3FEFAE147AE147AE])))
     three_docs
     = (Inr None,
        [LogDebugReranking 3, LogDebugQuery ''q'', ModelRerank ''q'' [''A'', ''B'', ''C''] False,
         LogException ValueError])"
  using huge_index_raises huge_index_out_of_range [of 3]
  by (simp add: predict_def predict_try_def extract_scores_def fixed_model_def
        results_object_def result_entry_def three_docs_def Let_def numeral_3_eq_3
        chained_compare_int del: chained_compare.simps)

text \<open>
  An exception of the model whose \<open>__str__\<close> raises: the handler's f-string of line 100
  raises in turn, and that exception reaches the caller.
\<close>

lemma example_unprintable_exception:
  "predict (fixed_model (Inl (OtherException ''Odd'' (Some TypeError)))) two_docs
     = (Inl TypeError,
        [LogDebugReranking 2, LogDebugQuery ''what is rust?'',
         ModelRerank ''what is rust?'' [''doc A'', ''doc B''] False])"
  by (simp add: predict_def predict_try_def fixed_model_def two_docs_def Let_def)

section \<open>Empty request\<close>

text \<open>
  C3. \<open>predict\<close> on the empty request returns \<open>None\<close> (not a list of length zero), and all
  it does is log the warning: the model is not called.
\<close>

theorem predict_empty_returns_None:
  "predict rerank [] = (Inr None, [LogWarningEmpty])"
  by (simp add: predict_def)

section \<open>Full coverage\<close>




section \<open>Out-of-range indices\<close>




section \<open>Partial results\<close>

text \<open>
  C5. For a non-empty request of N pairs and every result of well-formed entries, every
  position of the returned list that no entry mentions holds the default \<open>0.0\<close>. That
  some indices are not mentioned is no error: whether a list is returned does not depend
  on which indices the result mentions, only on whether every out-of-range index can be
  logged.
\<close>

theorem predict_unmentioned_default:
  assumes "sentences \<noteq> []"
    and "rerank (fst (hd sentences)) (map snd sentences) False = Inr results"
    and "has_entries results rs"
  shows "(\<forall>scores. fst (predict rerank sentences) = Inr (Some scores) \<longrightarrow>
            (\<forall>k < length sentences. int k \<notin> fst ` set rs \<longrightarrow> scores ! k = PyFloat 0))
         \<and> ((\<exists>scores. fst (predict rerank sentences) = Inr (Some scores))
              = loggable (length sentences) rs)"
proof (intro conjI allI impI)
  fix scores k
  let ?n = "length sentences"
  assume ret: "fst (predict rerank sentences) = Inr (Some scores)"
    and k: "k < ?n" and un: "int k \<notin> fst ` set rs"
  from assms ret have sc: "scores = foldl (write_entry ?n) (replicate ?n (PyFloat 0)) rs"
    by (rule predict_entries_returned(2))
  from un have "map_of (rev rs) (int k) = None"
    by (simp add: map_of_eq_None_iff)
  with k show "scores ! k = PyFloat 0"
    by (simp add: sc nth_foldl_write)
next
  show "(\<exists>scores. fst (predict rerank sentences) = Inr (Some scores))
          = loggable (length sentences) rs"
  proof
    assume "\<exists>scores. fst (predict rerank sentences) = Inr (Some scores)"
    then obtain scores where "fst (predict rerank sentences) = Inr (Some scores)" ..
    with assms show "loggable (length sentences) rs"
      by (rule predict_entries_returned(1))
  next
    assume "loggable (length sentences) rs"
    with assms have "fst (predict rerank sentences) =
           Inr (Some (foldl (write_entry (length sentences))
                        (replicate (length sentences) (PyFloat 0)) rs))"
      by (rule predict_entries(1))
    then show "\<exists>scores. fst (predict rerank sentences) = Inr (Some scores)" ..
  qed
qed

theorem predict_unmentioned_default_witness:
  "three_docs \<noteq> []
   \<and> has_entries (results_object [result_entry 1 0x3FE0000000000000]) [(1, 0x3FE0000000000000)]
   \<and> (\<exists>scores. fst (predict (fixed_model (Inr (results_object [result_entry 1 0x3FE0000000000000])))
                     three_docs) = Inr (Some scores)
         \<and> scores ! 0 = PyFloat 0 \<and> scores ! 2 = PyFloat 0)"
proof -
  let ?res = "results_object [result_entry 1 0x3FE0000000000000]"
  let ?rs = "[(1::int, 0x3FE0000000000000::64 word)]"
  have h1: "three_docs \<noteq> []"
    by (simp add: three_docs_def)
  have h2: "fixed_model (Inr ?res) (fst (hd three_docs)) (map snd three_docs) False = Inr ?res"
    by (simp add: fixed_model_def)
  have h3: "has_entries ?res ?rs"
    by (simp add: has_entries_def results_object_def result_entry_def is_entry_def)
  have lg: "loggable (length three_docs) ?rs"
    by (simp add: loggable_def small_int_prints)
  note inst = predict_unmentioned_default [of three_docs "fixed_model (Inr ?res)" ?res ?rs,
      OF h1 h2 h3]
  from inst lg obtain scores
    where r: "fst (predict (fixed_model (Inr ?res)) three_docs) = Inr (Some scores)"
    by blast
  with inst have z: "\<forall>k < length three_docs. int k \<notin> fst ` set ?rs \<longrightarrow> scores ! k = PyFloat 0"
    by blast
  have "(0::nat) < length three_docs" and "(2::nat) < length three_docs"
    by (simp_all add: three_docs_def)
  with z have "scores ! 0 = PyFloat 0" and "scores ! 2 = PyFloat 0"
    by simp_all
  with r h1 h3 show ?thesis by blast
qed

section \<open>Length of the score vector\<close>

text \<open>
  C6. For a non-empty request of N pairs and whatever the model returns, a list returned
  by \<open>predict\<close> has length N.
\<close>

theorem predict_length:
  assumes "sentences \<noteq> []"
    and "fst (predict rerank sentences) = Inr (Some scores)"
  shows "length scores = length sentences"
  using assms(2)
  by (auto simp: predict_nonempty [OF assms(1)] Let_def
           split: sum.splits prod.splits if_splits option.splits dest: extract_scores_length)

theorem predict_length_witness:
  "three_docs \<noteq> []
   \<and> fst (predict
        (fixed_model (Inr (results_object
           [result_entry 7 0x3FEFAE147AE147AE, result_entry 1 0x3FE0000000000000,
            result_entry 1 0x3FE6666666666666])))
        three_docs)
       = Inr (Some [PyFloat 0, PyFloat 0x3FE6666666666666, PyFloat 0])
   \<and> length [PyFloat 0, PyFloat 0x3FE6666666666666, PyFloat 0] = length three_docs"
proof -
  let ?m = "fixed_model (Inr (results_object
           [result_entry 7 0x3FEFAE147AE147AE, result_entry 1 0x3FE0000000000000,
            result_entry 1 0x3FE6666666666666]))"
  have h1: "three_docs \<noteq> []"
    by (simp add: three_docs_def)
  have h2: "fst (predict ?m three_docs)
       = Inr (Some [PyFloat 0, PyFloat 0x3FE6666666666666, PyFloat 0])"
    by (simp add: predict_def predict_try_def extract_scores_def fixed_model_def
          results_object_def result_entry_def three_docs_def list_setitem_int_def numeral_3_eq_3
          Let_def small_int_prints)
  from predict_length [OF h1 h2] h1 h2 show ?thesis
    by simp
qed

section \<open>Duplicate indices\<close>

text \<open>
  C8. For a non-empty request of N pairs and every result of well-formed entries, if
  the entry \<open>(k, f)\<close> with \<open>k < N\<close> is the last one with index \<open>k\<close> in iteration order,
  position \<open>k\<close> of the returned list holds \<open>f\<close>: earlier entries with the same index are
  overwritten. That an index occurs several times is no error: whether a list is
  returned depends only on whether every out-of-range index can be logged.
\<close>

theorem predict_last_write_wins:
  assumes "sentences \<noteq> []"
    and "rerank (fst (hd sentences)) (map snd sentences) False = Inr results"
    and "has_entries results rs"
    and "rs = before @ (int k, f) # after"
    and "k < length sentences"
    and "int k \<notin> fst ` set after"
  shows "(\<forall>scores. fst (predict rerank sentences) = Inr (Some scores) \<longrightarrow> scores ! k = PyFloat f)
         \<and> ((\<exists>scores. fst (predict rerank sentences) = Inr (Some scores))
              = loggable (length sentences) rs)"
proof (intro conjI allI impI)
  fix scores
  let ?n = "length sentences"
  assume ret: "fst (predict rerank sentences) = Inr (Some scores)"
  from assms(1-3) ret have sc: "scores = foldl (write_entry ?n) (replicate ?n (PyFloat 0)) rs"
    by (rule predict_entries_returned(2))
  from assms(6) have "map_of (rev after) (int k) = None"
    by (simp add: map_of_eq_None_iff)
  then have "map_of (rev rs) (int k) = Some f"
    by (simp add: assms(4) map_add_def)
  with assms(5) show "scores ! k = PyFloat f"
    by (simp add: sc nth_foldl_write)
next
  show "(\<exists>scores. fst (predict rerank sentences) = Inr (Some scores))
          = loggable (length sentences) rs"
  proof
    assume "\<exists>scores. fst (predict rerank sentences) = Inr (Some scores)"
    then obtain scores where "fst (predict rerank sentences) = Inr (Some scores)" ..
    with assms(1-3) show "loggable (length sentences) rs"
      by (rule predict_entries_returned(1))
  next
    assume "loggable (length sentences) rs"
    with assms(1-3) have "fst (predict rerank sentences) =
           Inr (Some (foldl (write_entry (length sentences))
                        (replicate (length sentences) (PyFloat 0)) rs))"
      by (rule predict_entries(1))
    then show "\<exists>scores. fst (predict rerank sentences) = Inr (Some scores)" ..
  qed
qed

theorem predict_last_write_wins_witness:
  "three_docs \<noteq> []
   \<and> has_entries
        (results_object [result_entry 1 0x3FC999999999999A, result_entry 1 0x3FE0000000000000,
                         result_entry 0 0x3FECCCCCCCCCCCCD])
        ([(1, 0x3FC999999999999A)] @ (int 1, 0x3FE0000000000000) # [(0, 0x3FECCCCCCCCCCCCD)])
   \<and> (\<exists>scores. fst (predict
          (fixed_model (Inr (results_object
             [result_entry 1 0x3FC999999999999A, result_entry 1 0x3FE0000000000000,
              result_entry 0 0x3FECCCCCCCCCCCCD])))
          three_docs) = Inr (Some scores)
         \<and> scores ! 1 = PyFloat 0x3FE0000000000000)"
proof -
  let ?res = "results_object [result_entry 1 0x3FC999999999999A, result_entry 1 0x3FE0000000000000,
                         result_entry 0 0x3FECCCCCCCCCCCCD]"
  let ?before = "[(1::int, 0x3FC999999999999A::64 word)]"
  let ?after = "[(0::int, 0x3FECCCCCCCCCCCCD::64 word)]"
  let ?rs = "?before @ (int 1, 0x3FE0000000000000) # ?after"
  have h1: "three_docs \<noteq> []"
    by (simp add: three_docs_def)
  have h2: "fixed_model (Inr ?res) (fst (hd three_docs)) (map snd three_docs) False = Inr ?res"
    by (simp add: fixed_model_def)
  have h3: "has_entries ?res ?rs"
    by (simp add: has_entries_def results_object_def result_entry_def is_entry_def)
  have h5: "1 < length three_docs"
    by (simp add: three_docs_def)
  have h6: "int 1 \<notin> fst ` set ?after"
    by simp
  have lg: "loggable (length three_docs) ?rs"
    by (simp add: loggable_def small_int_prints)
  note inst = predict_last_write_wins [of three_docs "fixed_model (Inr ?res)" ?res ?rs ?before 1
      "0x3FE0000000000000" ?after, OF h1 h2 h3 refl h5 h6]
  from inst lg obtain scores
    where r: "fst (predict (fixed_model (Inr ?res)) three_docs) = Inr (Some scores)"
    by blast
  with inst have "scores ! 1 = PyFloat 0x3FE0000000000000"
    by blast
  with r h1 h3 show ?thesis by blast
qed

section \<open>The call of the model\<close>

text \<open>
  C7. For a non-empty request, \<open>predict\<close> calls the model exactly once: with the query of
  the first pair, with the documents of all pairs in request order, and with
  \<open>return_embeddings\<close> false. The events hold that one call; \<open>predict\<close> depends on the
  model through nothing but the outcome of that call (a model that agrees on it gives
  the same result and events, whatever it does at other arguments); and that outcome is
  what \<open>predict\<close> works on: an exception of the call that the handler does not catch is
  the exception of \<open>predict\<close>, and a returned object is the one whose scores are
  extracted.
\<close>

theorem predict_calls_model_once:
  assumes "sentences \<noteq> []"
  shows "filter is_model_call (snd (predict rerank sentences)) =
           [ModelRerank (fst (hd sentences)) (map snd sentences) False]
         \<and> (\<forall>rerank'. rerank' (fst (hd sentences)) (map snd sentences) False
                         = rerank (fst (hd sentences)) (map snd sentences) False
                \<longrightarrow> predict rerank' sentences = predict rerank sentences)
         \<and> (\<forall>e. rerank (fst (hd sentences)) (map snd sentences) False = Inl e
                  \<and> \<not> is_Exception e
                \<longrightarrow> fst (predict rerank sentences) = Inl e)
         \<and> (\<forall>results. rerank (fst (hd sentences)) (map snd sentences) False = Inr results
                \<longrightarrow> fst (predict rerank sentences) =
                    (case fst (extract_scores (length sentences) results) of
                       Inl e \<Rightarrow> Inr None
                     | Inr scores \<Rightarrow> Inr (Some scores)))"
proof (intro conjI allI impI)
  show "filter is_model_call (snd (predict rerank sentences)) =
           [ModelRerank (fst (hd sentences)) (map snd sentences) False]"
    by (auto simp: predict_nonempty [OF assms] Let_def
             split: sum.splits prod.splits option.splits
             dest: extract_scores_no_model_call)
next
  fix rerank'
  assume "rerank' (fst (hd sentences)) (map snd sentences) False
            = rerank (fst (hd sentences)) (map snd sentences) False"
  then show "predict rerank' sentences = predict rerank sentences"
    by (simp add: predict_nonempty [OF assms])
next
  fix e
  assume "rerank (fst (hd sentences)) (map snd sentences) False = Inl e \<and> \<not> is_Exception e"
  then show "fst (predict rerank sentences) = Inl e"
    by (simp add: predict_nonempty [OF assms])
next
  fix results
  assume "rerank (fst (hd sentences)) (map snd sentences) False = Inr results"
  then show "fst (predict rerank sentences) =
                    (case fst (extract_scores (length sentences) results) of
                       Inl e \<Rightarrow> Inr None
                     | Inr scores \<Rightarrow> Inr (Some scores))"
    by (simp add: predict_nonempty [OF assms] Let_def split: prod.splits sum.splits)
qed

theorem predict_calls_model_once_witness:
  "two_docs \<noteq> []
   \<and> filter is_model_call (snd (predict
        (fixed_model (Inr (results_object
           [result_entry 1 0x3FECCCCCCCCCCCCD, result_entry 0 0x3FC999999999999A])))
        two_docs))
       = [ModelRerank ''what is rust?'' [''doc A'', ''doc B''] False]
   \<and> predict
        (only_call ''what is rust?'' [''doc A'', ''doc B''] False
           (Inr (results_object
              [result_entry 1 0x3FECCCCCCCCCCCCD, result_entry 0 0x3FC999999999999A])))
        two_docs
       = predict
           (fixed_model (Inr (results_object
              [result_entry 1 0x3FECCCCCCCCCCCCD, result_entry 0 0x3FC999999999999A])))
           two_docs
   \<and> fst (predict
        (only_call ''what is rust?'' [''doc A'', ''doc B''] False
           (Inr (results_object
              [result_entry 1 0x3FECCCCCCCCCCCCD, result_entry 0 0x3FC999999999999A])))
        two_docs)
       = Inr (Some [PyFloat 0x3FC999999999999A, PyFloat 0x3FECCCCCCCCCCCCD])
   \<and> fst (predict (fixed_model (Inl KeyboardInterrupt)) two_docs) = Inl KeyboardInterrupt"
proof -
  let ?out = "Inr (results_object
              [result_entry 1 0x3FECCCCCCCCCCCCD, result_entry 0 0x3FC999999999999A])"
  let ?picky = "only_call ''what is rust?'' [''doc A'', ''doc B''] False ?out"
  have h1: "two_docs \<noteq> []"
    by (simp add: two_docs_def)
  have same: "?picky (fst (hd two_docs)) (map snd two_docs) False
                = fixed_model ?out (fst (hd two_docs)) (map snd two_docs) False"
    by (simp add: only_call_def fixed_model_def two_docs_def)
  have raised: "fixed_model (Inl KeyboardInterrupt) (fst (hd two_docs)) (map snd two_docs) False
                  = Inl KeyboardInterrupt \<and> \<not> is_Exception KeyboardInterrupt"
    by (simp add: fixed_model_def)
  have val: "fst (predict (fixed_model ?out) two_docs)
               = Inr (Some [PyFloat 0x3FC999999999999A, PyFloat 0x3FECCCCCCCCCCCCD])"
    by (simp add: predict_def predict_try_def extract_scores_def fixed_model_def
          results_object_def result_entry_def two_docs_def list_setitem_int_def numeral_2_eq_2
          Let_def)
  note inst = predict_calls_model_once [OF h1, of "fixed_model ?out"]
  from inst have ev: "filter is_model_call (snd (predict (fixed_model ?out) two_docs))
              = [ModelRerank (fst (hd two_docs)) (map snd two_docs) False]"
    by (rule conjunct1)
  from inst have "\<forall>rerank'. rerank' (fst (hd two_docs)) (map snd two_docs) False
                         = fixed_model ?out (fst (hd two_docs)) (map snd two_docs) False
                \<longrightarrow> predict rerank' two_docs = predict (fixed_model ?out) two_docs"
    by (rule conjunct1 [OF conjunct2])
  then have "?picky (fst (hd two_docs)) (map snd two_docs) False
                         = fixed_model ?out (fst (hd two_docs)) (map snd two_docs) False
                \<longrightarrow> predict ?picky two_docs = predict (fixed_model ?out) two_docs"
    by (rule spec)
  with same have eq: "predict ?picky two_docs = predict (fixed_model ?out) two_docs"
    by (rule mp [rotated])
  have "\<forall>e. fixed_model (Inl KeyboardInterrupt) (fst (hd two_docs)) (map snd two_docs) False
                = Inl e \<and> \<not> is_Exception e
             \<longrightarrow> fst (predict (fixed_model (Inl KeyboardInterrupt)) two_docs) = Inl e"
    using predict_calls_model_once [OF h1, of "fixed_model (Inl KeyboardInterrupt)"]
    by (rule conjunct1 [OF conjunct2 [OF conjunct2]])
  then have "fixed_model (Inl KeyboardInterrupt) (fst (hd two_docs)) (map snd two_docs) False
                = Inl KeyboardInterrupt \<and> \<not> is_Exception KeyboardInterrupt
             \<longrightarrow> fst (predict (fixed_model (Inl KeyboardInterrupt)) two_docs)
                   = Inl KeyboardInterrupt"
    by (rule spec)
  with raised
  have kb: "fst (predict (fixed_model (Inl KeyboardInterrupt)) two_docs) = Inl KeyboardInterrupt"
    by (rule mp [rotated])
  have ev': "filter is_model_call (snd (predict (fixed_model ?out) two_docs))
              = [ModelRerank ''what is rust?'' [''doc A'', ''doc B''] False]"
    using ev by (simp add: two_docs_def)
  show ?thesis
    using h1 ev' eq val kb by (simp only: simp_thms)
qed

section \<open>Queries after the first\<close>

text \<open>
  C9. Two non-empty requests of the same length, with the same documents and the same
  query in their first pairs, give the same result and the same events with the same
  model: the queries of the pairs after the first have no effect.
\<close>

theorem predict_ignores_later_queries:
  assumes "s1 \<noteq> []" and "s2 \<noteq> []"
    and "length s1 = length s2"
    and "map snd s1 = map snd s2"
    and "fst (hd s1) = fst (hd s2)"
  shows "predict rerank s1 = predict rerank s2"
  by (simp add: predict_nonempty [OF assms(1)] predict_nonempty [OF assms(2)] assms(3-5)
        cong: sum.case_cong)

theorem predict_ignores_later_queries_witness:
  "[(''q'', ''A''), (''x'', ''B''), (''y'', ''C'')] \<noteq> three_docs
   \<and> predict (fixed_model (Inr (results_object [result_entry 1 0x3FE0000000000000])))
       [(''q'', ''A''), (''x'', ''B''), (''y'', ''C'')]
     = predict (fixed_model (Inr (results_object [result_entry 1 0x3FE0000000000000]))) three_docs"
proof -
  let ?s1 = "[(''q'', ''A''), (''x'', ''B''), (''y'', ''C'')]"
  have h: "?s1 \<noteq> []" "three_docs \<noteq> []" "length ?s1 = length three_docs"
    "map snd ?s1 = map snd three_docs" "fst (hd ?s1) = fst (hd three_docs)"
    by (simp_all add: three_docs_def)
  have "?s1 \<noteq> three_docs"
    by (simp add: three_docs_def)
  with predict_ignores_later_queries [OF h] show ?thesis
    by simp
qed

section \<open>Failure isolation\<close>




section \<open>The argument is not mutated\<close>

text \<open>
  C10. \<open>predict\<close> called with the address of a list of pairs returns, and afterwards
  every object that existed before the call is unchanged, the argument among them. A
  returned list is an object allocated during the call, at an address that did not
  exist before (so it is not the argument), and it holds the scores that \<open>predict\<close>
  computes.
\<close>

theorem predict_heap_preserves_input:
  assumes "sentences < length h" and "h ! sentences = PairList ss"
  shows "\<exists>r h'. predict_heap rerank sentences h = Some (r, h')
           \<and> length h \<le> length h'
           \<and> (\<forall>b < length h. h' ! b = h ! b)
           \<and> h' ! sentences = PairList ss
           \<and> (case r of
                Inl e \<Rightarrow> fst (predict rerank ss) = Inl e
              | Inr None \<Rightarrow> fst (predict rerank ss) = Inr None
              | Inr (Some p) \<Rightarrow>
                  length h \<le> p \<and> p < length h' \<and> p \<noteq> sentences
                  \<and> (\<exists>scores. h' ! p = ValList scores
                        \<and> fst (predict rerank ss) = Inr (Some scores)))"
proof (cases "ss = []")
  case True
  with assms show ?thesis
    by (simp add: predict_heap_def predict_def)
next
  case False
  obtain r0 h' where run: "predict_try_heap rerank ss h = (r0, h')"
    by (cases "predict_try_heap rerank ss h")
  note fr = predict_try_heap_frame [OF run]
  note rf = predict_try_heap_refines [OF run]
  obtain r1 evs where pure: "predict_try rerank ss = (r1, evs)"
    by (cases "predict_try rerank ss")
  show ?thesis
  proof (cases r0)
    case (Inl e)
    with rf pure have "r1 = Inl e" by simp
    with assms False run Inl pure fr show ?thesis
      by (cases "is_Exception e"; cases "str_raises e")
         (simp_all add: predict_heap_def predict_def)
  next
    case (Inr p)
    with rf pure obtain scores where "h' ! p = ValList scores" and "r1 = Inr scores"
      by auto
    with assms False run Inr pure fr show ?thesis
      by (simp add: predict_heap_def predict_def)
  qed
qed

theorem predict_heap_preserves_input_witness:
  "(0::nat) < length [PairList three_docs]
   \<and> [PairList three_docs] ! 0 = PairList three_docs
   \<and> predict_heap (fixed_model (Inr (results_object [result_entry 1 0x3FE0000000000000]))) 0
        [PairList three_docs]
       = Some (Inr (Some 2),
               [PairList three_docs, StrList [''A'', ''B'', ''C''],
                ValList [PyFloat 0, PyFloat 0x3FE0000000000000, PyFloat 0]])
   \<and> (\<exists>r h'. predict_heap (fixed_model (Inr (results_object [result_entry 1 0x3FE0000000000000])))
                  0 [PairList three_docs] = Some (r, h')
               \<and> h' ! 0 = PairList three_docs)"
proof -
  let ?m = "fixed_model (Inr (results_object [result_entry 1 0x3FE0000000000000]))"
  have h1: "(0::nat) < length [PairList three_docs]"
    by simp
  have h2: "[PairList three_docs] ! 0 = PairList three_docs"
    by simp
  have run: "predict_heap ?m 0 [PairList three_docs]
       = Some (Inr (Some 2),
               [PairList three_docs, StrList [''A'', ''B'', ''C''],
                ValList [PyFloat 0, PyFloat 0x3FE0000000000000, PyFloat 0]])"
    by (simp add: predict_heap_def predict_try_heap_def alloc_def heap_setitem_def
          fixed_model_def results_object_def result_entry_def three_docs_def
          list_setitem_int_def Let_def numeral_3_eq_3 numeral_2_eq_2)
  from predict_heap_preserves_input [OF h1 h2, of ?m]
  have "\<exists>r h'. predict_heap ?m 0 [PairList three_docs] = Some (r, h')
               \<and> h' ! 0 = PairList three_docs"
    by blast
  with h1 h2 run show ?thesis
    by blast
qed

end
